theory Spec2Isabelle
  imports Complex_Main
begin

section \<open>Chronicle: a logging facade over the rerun SDK\<close>

text \<open>
  The repository is one class, \<open>Logger\<close> (\<open>chronicle/logger.py\<close>), whose methods compose
  an entity path from a mutable prefix and forward typed records to the rerun SDK
  (\<open>rr.init\<close>, \<open>rr.save\<close>, \<open>rr.set_time\<close>, \<open>rr.log\<close>). The embedding below keeps the
  attributes of the object in a record, the SDK as a recorded trace of the calls made on
  it, and every exception as a value.
\<close>

subsection \<open>Python values and exceptions\<close>

text \<open>
  An exception is either an instance of \<open>Exception\<close> (what \<open>except Exception\<close> catches) or
  of another \<open>BaseException\<close> such as \<open>KeyboardInterrupt\<close>; the string is the class name.
\<close>

datatype pyexn = PyException string | PyBaseException string

text \<open>
  The values a configuration dictionary holds, with Python's truth value of each
  (\<open>None\<close>, \<open>False\<close>, \<open>0\<close> and the empty string are false).
\<close>

datatype pyval = PyNone | PyBool bool | PyInt int | PyStr string

fun truthy :: "pyval \<Rightarrow> bool" where
  "truthy PyNone = False"
| "truthy (PyBool b) = b"
| "truthy (PyInt i) = (i \<noteq> 0)"
| "truthy (PyStr s) = (s \<noteq> [])"

text \<open>
  \<open>s.strip(chars)\<close>: the characters of \<open>chars\<close> are removed from both ends of \<open>s\<close>, and
  nothing inside it. A path is a \<open>string\<close>; the separator is an ASCII character, so the
  bytes of a character beyond ASCII are never taken for it.
\<close>

definition py_strip :: "string \<Rightarrow> string \<Rightarrow> string" where
  "py_strip chars s =
     rev (dropWhile (\<lambda>c. c \<in> set chars) (rev (dropWhile (\<lambda>c. c \<in> set chars) s)))"

subsection \<open>The rerun SDK as the sink\<close>

text \<open>
  The SDK is not part of the repository. It is kept as the list of the calls the wrapper
  makes on it, in order, together with the current coordinate of every timeline (what
  \<open>rr.set_time\<close> sets, and what stays until it is set again) and with the SDK's answer to a
  call: \<open>raises\<close> gives the exception a call ends with, if any. A call that raises is
  still recorded as made, and has no other effect. Building a record (\<open>rr.TextLog\<close>,
  \<open>rr.Scalars\<close>, \<open>rr.TextDocument\<close>) and logging it are one call, with the arguments the
  wrapper passes: a text and its level, a number, a text and its media type.
\<close>

datatype time_coord = Sequence int | Timestamp real

datatype archetype =
    TextLog string string
  | Scalars real
  | TextDocument string string

datatype sink_call =
    Init string pyval
  | Save pyval
  | SetTime string time_coord
  | Log string archetype

record sink =
  calls :: "sink_call list"
  timelines :: "string \<rightharpoonup> time_coord"
  raises :: "sink_call \<Rightarrow> pyexn option"

fun effect :: "sink_call \<Rightarrow> sink \<Rightarrow> sink" where
  "effect (SetTime timeline t) s = s\<lparr>timelines := (timelines s)(timeline \<mapsto> t)\<rparr>"
| "effect (Init a sp) s = s"
| "effect (Save p) s = s"
| "effect (Log p r) s = s"

definition forward :: "sink_call \<Rightarrow> sink \<Rightarrow> (pyexn + unit) \<times> sink" where
  "forward c s =
     (let s' = s\<lparr>calls := calls s @ [c]\<rparr>
      in case raises s c of
           Some e \<Rightarrow> (Inl e, s')
         | None \<Rightarrow> (Inr (), effect c s'))"

definition rr_init :: "string \<Rightarrow> pyval \<Rightarrow> sink \<Rightarrow> (pyexn + unit) \<times> sink" where
  "rr_init application_id spawn = forward (Init application_id spawn)"

definition rr_save :: "pyval \<Rightarrow> sink \<Rightarrow> (pyexn + unit) \<times> sink" where
  "rr_save path = forward (Save path)"

definition rr_set_time :: "string \<Rightarrow> time_coord \<Rightarrow> sink \<Rightarrow> (pyexn + unit) \<times> sink" where
  "rr_set_time timeline t = forward (SetTime timeline t)"

definition rr_log :: "string \<Rightarrow> archetype \<Rightarrow> sink \<Rightarrow> (pyexn + unit) \<times> sink" where
  "rr_log path r = forward (Log path r)"

subsection \<open>The Logger object\<close>

record logger =
  application_id :: string
  entity_prefix :: string
  config :: "string \<rightharpoonup> pyval"

text \<open>
  A method runs in a world: the object it is called on and the SDK's state. It returns
  a value or an exception, and the world it leaves.
\<close>

record world =
  self :: logger
  rr :: sink

type_synonym 'a prog = "world \<Rightarrow> (pyexn + 'a) \<times> world"

definition call_sink :: "(sink \<Rightarrow> (pyexn + unit) \<times> sink) \<Rightarrow> unit prog" where
  "call_sink f w = (case f (rr w) of (r, s) \<Rightarrow> (r, w\<lparr>rr := s\<rparr>))"

text \<open>Statements in sequence: an exception ends the sequence.\<close>

definition seq :: "'a prog \<Rightarrow> ('a \<Rightarrow> 'b prog) \<Rightarrow> 'b prog" where
  "seq m f w = (case m w of (Inl e, w') \<Rightarrow> (Inl e, w') | (Inr x, w') \<Rightarrow> f x w')"

text \<open>
  \<open>__init__\<close>: \<open>entity_prefix or ""\<close> and \<open>config or {}\<close> replace \<open>None\<close> (and the empty
  value, by an equal one); \<open>config.get("spawn_viewer", True)\<close> and
  \<open>config.get("save_path")\<close> read the options; \<open>rr.save\<close> is called when the value of
  \<open>save_path\<close> is true in Python's sense. An exception of the SDK ends the constructor,
  and no object is returned.
\<close>

definition config_get :: "(string \<rightharpoonup> pyval) \<Rightarrow> string \<Rightarrow> pyval \<Rightarrow> pyval" where
  "config_get cfg key dflt = (case cfg key of None \<Rightarrow> dflt | Some v \<Rightarrow> v)"

definition Logger_init ::
  "string \<Rightarrow> string option \<Rightarrow> (string \<rightharpoonup> pyval) option \<Rightarrow> sink \<Rightarrow> (pyexn + logger) \<times> sink"
where
  "Logger_init app prefix cfg s =
     (let obj = \<lparr>application_id = app,
                 entity_prefix = (case prefix of None \<Rightarrow> [] | Some p \<Rightarrow> p),
                 config = (case cfg of None \<Rightarrow> Map.empty | Some c \<Rightarrow> c)\<rparr>;
          spawn = config_get (config obj) ''spawn_viewer'' (PyBool True);
          save_path = config_get (config obj) ''save_path'' PyNone
      in case rr_init app spawn s of
           (Inl e, s1) \<Rightarrow> (Inl e, s1)
         | (Inr u, s1) \<Rightarrow>
             if truthy save_path
             then (case rr_save save_path s1 of
                     (Inl e, s2) \<Rightarrow> (Inl e, s2)
                   | (Inr u, s2) \<Rightarrow> (Inr obj, s2))
             else (Inr obj, s1))"

text \<open>\<open>_get_path\<close> reads the prefix and assigns nothing.\<close>

definition get_path :: "logger \<Rightarrow> string \<Rightarrow> string" where
  "get_path obj path =
     (if entity_prefix obj \<noteq> []
      then py_strip ''/'' (entity_prefix obj @ ''/'' @ path)
      else path)"

text \<open>A call \<open>self._get_path(path)\<close> as a statement of a program.\<close>

definition call_get_path :: "string \<Rightarrow> string prog" where
  "call_get_path path w = (Inr (get_path (self w) path), w)"

definition info :: "string \<Rightarrow> unit prog" where
  "info message w =
     call_sink (rr_log (get_path (self w) ''logs/info'') (TextLog message ''INFO'')) w"

definition warning :: "string \<Rightarrow> unit prog" where
  "warning message w =
     call_sink (rr_log (get_path (self w) ''logs/warning'') (TextLog message ''WARN'')) w"

definition debug :: "string \<Rightarrow> unit prog" where
  "debug message w =
     call_sink (rr_log (get_path (self w) ''logs/debug'') (TextLog message ''DEBUG'')) w"

definition error :: "string \<Rightarrow> unit prog" where
  "error message w =
     call_sink (rr_log (get_path (self w) ''logs/error'') (TextLog message ''ERROR'')) w"

definition critical :: "string \<Rightarrow> unit prog" where
  "critical message w =
     call_sink (rr_log (get_path (self w) ''logs/critical'') (TextLog message ''CRITICAL'')) w"

definition log_scalar :: "string \<Rightarrow> real \<Rightarrow> int option \<Rightarrow> unit prog" where
  "log_scalar path v step w =
     (case step of
        Some n \<Rightarrow>
          seq (call_sink (rr_set_time ''step'' (Sequence n)))
              (\<lambda>u w1. call_sink (rr_log (get_path (self w1) path) (Scalars v)) w1) w
      | None \<Rightarrow> call_sink (rr_log (get_path (self w) path) (Scalars v)) w)"

definition set_time_sequence :: "string \<Rightarrow> int \<Rightarrow> unit prog" where
  "set_time_sequence timeline step = call_sink (rr_set_time timeline (Sequence step))"

definition set_time_seconds :: "string \<Rightarrow> real \<Rightarrow> unit prog" where
  "set_time_seconds timeline t = call_sink (rr_set_time timeline (Timestamp t))"

text \<open>
  \<open>log_dict\<close>: \<open>json.dumps\<close> and \<open>str\<close> are functions of Python's library, taken here as
  the parameters \<open>json_dumps\<close> and \<open>py_str\<close> over a type of Python objects. \<open>py_str\<close> of
  an object returns a text or raises; \<open>json_dumps\<close> takes the object, the indentation and
  the function \<open>default\<close> that the serializer applies to a value it cannot serialize
  natively, and returns a text or raises. The method calls
  \<open>json.dumps(dictionary, indent=2, default=str)\<close>; \<open>except Exception\<close> catches its
  exception when it is an \<open>Exception\<close>, and then \<open>str(dictionary)\<close> is the content; nothing
  catches an exception of that second call.
\<close>

definition log_dict ::
  "('o \<Rightarrow> nat \<Rightarrow> ('o \<Rightarrow> pyexn + string) \<Rightarrow> pyexn + string) \<Rightarrow> ('o \<Rightarrow> pyexn + string)
   \<Rightarrow> string \<Rightarrow> 'o \<Rightarrow> unit prog"
where
  "log_dict json_dumps py_str path dictionary w =
     (let content =
            (case json_dumps dictionary 2 py_str of
               Inr text \<Rightarrow> Inr text
             | Inl (PyException e) \<Rightarrow> py_str dictionary
             | Inl (PyBaseException e) \<Rightarrow> Inl (PyBaseException e))
      in case content of
           Inl e \<Rightarrow> (Inl e, w)
         | Inr text \<Rightarrow>
             call_sink (rr_log (get_path (self w) path) (TextDocument text ''text/markdown'')) w)"

text \<open>\<open>batch\<close>: a scope that does nothing around its body.\<close>

definition batch :: "'a prog \<Rightarrow> 'a prog" where
  "batch body w = body w"

text \<open>
  \<open>context\<close> is a generator under \<open>contextlib.contextmanager\<close>: the statements before
  \<open>yield\<close> run when the \<open>with\<close> block is entered, the \<open>finally\<close> clause runs when the
  block is left, however it is left, and an exception of the body goes on to the caller
  after it. The body is any program: its result stands for normal completion and for a
  \<open>return\<close> out of the block alike.
\<close>

definition context_enter :: "string \<Rightarrow> logger \<Rightarrow> string \<times> logger" where
  "context_enter path_prefix obj =
     (let old_prefix = entity_prefix obj
      in (old_prefix,
          if entity_prefix obj \<noteq> []
          then obj\<lparr>entity_prefix := entity_prefix obj @ ''/'' @ path_prefix\<rparr>
          else obj\<lparr>entity_prefix := path_prefix\<rparr>))"

definition context_exit :: "string \<Rightarrow> logger \<Rightarrow> logger" where
  "context_exit old_prefix obj = obj\<lparr>entity_prefix := old_prefix\<rparr>"

definition with_context :: "string \<Rightarrow> 'a prog \<Rightarrow> 'a prog" where
  "with_context path_prefix body w =
     (case context_enter path_prefix (self w) of
        (old_prefix, obj) \<Rightarrow>
          (case body (w\<lparr>self := obj\<rparr>) of
             (r, w') \<Rightarrow> (r, w'\<lparr>self := context_exit old_prefix (self w')\<rparr>)))"

subsection \<open>Programs around the methods\<close>

text \<open>
  \<open>try: body except Exception as e: handler(e)\<close>; reading the attribute
  \<open>entity_prefix\<close>; and, for the examples, an SDK that has received no call and accepts
  every call, with an object in front of it.
\<close>

definition try_except :: "'a prog \<Rightarrow> (string \<Rightarrow> 'a prog) \<Rightarrow> 'a prog" where
  "try_except body handler w =
     (case body w of
        (Inl (PyException e), w') \<Rightarrow> handler e w'
      | (r, w') \<Rightarrow> (r, w'))"

definition current_prefix :: "string prog" where
  "current_prefix w = (Inr (entity_prefix (self w)), w)"

definition fresh_sink :: sink where
  "fresh_sink = \<lparr>calls = [], timelines = Map.empty, raises = (\<lambda>c. None)\<rparr>"

definition example_world :: "string \<Rightarrow> world" where
  "example_world p =
     \<lparr>self = \<lparr>application_id = ''app'', entity_prefix = p, config = Map.empty\<rparr>,
      rr = fresh_sink\<rparr>"

text \<open>
  Entries into and exits from \<open>context\<close> scopes, in the order a single control flow makes
  them: a \<open>with\<close> block keeps the prefix it saved until its own exit, so the saved prefixes
  form a stack.
\<close>

datatype scope_event = Enter string | Exit

fun scope_step :: "logger \<times> string list \<Rightarrow> scope_event \<Rightarrow> logger \<times> string list" where
  "scope_step (obj, saved) (Enter path_prefix) =
     (case context_enter path_prefix obj of (old_prefix, obj') \<Rightarrow> (obj', old_prefix # saved))"
| "scope_step (obj, old_prefix # saved) Exit = (context_exit old_prefix obj, saved)"
| "scope_step (obj, []) Exit = (obj, [])"

definition run_scopes :: "scope_event list \<Rightarrow> logger \<times> string list \<Rightarrow> logger \<times> string list" where
  "run_scopes evs st = foldl scope_step st evs"

text \<open>
  The segments of a path are what \<open>path.split("/")\<close> returns. A path is well formed when
  none of them is empty: its segments are joined by single separators, and it neither
  starts nor ends with one.
\<close>

fun segments :: "string \<Rightarrow> string list" where
  "segments [] = [[]]"
| "segments (c # cs) =
     (if c = CHR ''/'' then [] # segments cs
      else (case segments cs of [] \<Rightarrow> [[c]] | s # ss \<Rightarrow> (c # s) # ss))"

definition well_formed :: "string \<Rightarrow> bool" where
  "well_formed p = ([] \<notin> set (segments p))"

definition empty_or_well_formed :: "string \<Rightarrow> bool" where
  "empty_or_well_formed p = (p = [] \<or> well_formed p)"

text \<open>The \<open>path_prefix\<close> arguments of the entries among the events.\<close>

fun entered :: "scope_event list \<Rightarrow> string list" where
  "entered [] = []"
| "entered (Enter q # evs) = q # entered evs"
| "entered (Exit # evs) = entered evs"

text \<open>
  Some Python objects, and what the library returns on them. The dictionaries:
  \<^item> \<open>{}\<close>;
  \<^item> \<open>{(1, 2): 3}\<close>, whose key is no string: \<open>json.dumps\<close> raises \<open>TypeError\<close> (\<open>default\<close>
    is not applied to keys), and \<open>str\<close> gives its text;
  \<^item> \<open>{"k": datetime.date(2024, 1, 2)}\<close>: a date is not serializable natively, the
    serializer calls \<open>default\<close> on it and writes the text it gets as a JSON string;
  \<^item> \<open>{"k": obj}\<close> where \<open>__repr__\<close> of \<open>obj\<close> raises \<open>ValueError\<close> (and \<open>__str__\<close> is the
    inherited one, which calls \<open>__repr__\<close>): \<open>default=str\<close> raises inside the serializer,
    and \<open>str\<close> of the dictionary, which calls \<open>__repr__\<close> of its values, raises too;
  \<^item> \<open>{"k": obj}\<close> where \<open>__repr__\<close> of \<open>obj\<close> raises \<open>SystemExit\<close>, which is no
    \<open>Exception\<close>;
  \<^item> an instance of a subclass of \<open>dict\<close> whose \<open>__str__\<close> returns the empty string,
    holding the value whose \<open>__repr__\<close> raises \<open>ValueError\<close>.
  The values are the date and the two objects. The serializer writes a dictionary of one
  entry on three lines, the entry indented by \<open>indent\<close> spaces; the texts written here
  need no escaping inside a JSON string.
\<close>

datatype example_object =
    EmptyDict | TupleKeyDict | DateDict | UnprintableDict | ExitingDict | BlankDict
  | DateValue | UnprintableValue | ExitingValue

fun example_str :: "example_object \<Rightarrow> pyexn + string" where
  "example_str EmptyDict = Inr ''{}''"
| "example_str TupleKeyDict = Inr ''{(1, 2): 3}''"
| "example_str DateDict =
     Inr (''{'' @ [CHR 0x27] @ ''k'' @ [CHR 0x27] @ '': datetime.date(2024, 1, 2)}'')"
| "example_str UnprintableDict = Inl (PyException ''ValueError'')"
| "example_str ExitingDict = Inl (PyBaseException ''SystemExit'')"
| "example_str BlankDict = Inr []"
| "example_str DateValue = Inr ''2024-01-02''"
| "example_str UnprintableValue = Inl (PyException ''ValueError'')"
| "example_str ExitingValue = Inl (PyBaseException ''SystemExit'')"

definition json_string :: "string \<Rightarrow> string" where
  "json_string t = [CHR 0x22] @ t @ [CHR 0x22]"

definition json_one_entry :: "nat \<Rightarrow> string \<Rightarrow> pyexn + string \<Rightarrow> pyexn + string" where
  "json_one_entry indent key v =
     (case v of
        Inl e \<Rightarrow> Inl e
      | Inr t \<Rightarrow>
          Inr (''{'' @ [CHR 0x0A] @ replicate indent (CHR '' '') @ json_string key @ '': ''
               @ json_string t @ [CHR 0x0A] @ ''}''))"

fun example_json_dumps ::
  "example_object \<Rightarrow> nat \<Rightarrow> (example_object \<Rightarrow> pyexn + string) \<Rightarrow> pyexn + string"
where
  "example_json_dumps EmptyDict indent dflt = Inr ''{}''"
| "example_json_dumps TupleKeyDict indent dflt = Inl (PyException ''TypeError'')"
| "example_json_dumps DateDict indent dflt = json_one_entry indent ''k'' (dflt DateValue)"
| "example_json_dumps UnprintableDict indent dflt =
     json_one_entry indent ''k'' (dflt UnprintableValue)"
| "example_json_dumps ExitingDict indent dflt =
     json_one_entry indent ''k'' (dflt ExitingValue)"
| "example_json_dumps BlankDict indent dflt =
     json_one_entry indent ''k'' (dflt UnprintableValue)"
| "example_json_dumps v indent dflt =
     (case dflt v of Inl e \<Rightarrow> Inl e | Inr t \<Rightarrow> Inr (json_string t))"

section \<open>Properties\<close>

subsection \<open>What \<open>strip\<close> removes\<close>

lemma takeWhile_eq_replicate:
  "takeWhile (\<lambda>x. x = c) s = replicate (length (takeWhile (\<lambda>x. x = c) s)) c"
  by (induction s) auto

lemma dropWhile_decomp:
  "s = replicate (length (takeWhile (\<lambda>x. x = c) s)) c @ dropWhile (\<lambda>x. x = c) s"
  using takeWhile_eq_replicate[of c s] takeWhile_dropWhile_id[of "\<lambda>x. x = c" s] by metis

lemma py_strip_decomp:
  "\<exists>i j. s = replicate i c @ py_strip [c] s @ replicate j c"
proof -
  let ?P = "\<lambda>x. x = c"
  let ?t = "dropWhile ?P s"
  have 1: "s = replicate (length (takeWhile ?P s)) c @ ?t" by (rule dropWhile_decomp)
  have "rev ?t = replicate (length (takeWhile ?P (rev ?t))) c @ dropWhile ?P (rev ?t)"
    by (rule dropWhile_decomp)
  then have "rev (rev ?t) = rev (replicate (length (takeWhile ?P (rev ?t))) c @ dropWhile ?P (rev ?t))"
    by simp
  then have 2: "?t = py_strip [c] s @ replicate (length (takeWhile ?P (rev ?t))) c"
    by (simp add: py_strip_def)
  from 1 2 show ?thesis by metis
qed

lemma py_strip_ends:
  "py_strip [c] s = [] \<or> (hd (py_strip [c] s) \<noteq> c \<and> last (py_strip [c] s) \<noteq> c)"
proof (cases "py_strip [c] s = []")
  case True then show ?thesis by simp
next
  case False
  let ?P = "\<lambda>x. x = c"
  let ?t = "dropWhile ?P s"
  let ?u = "dropWhile ?P (rev ?t)"
  have r: "py_strip [c] s = rev ?u" by (simp add: py_strip_def)
  with False have u: "?u \<noteq> []" by simp
  then have "hd ?u \<noteq> c" using hd_dropWhile[of ?P "rev ?t"] by simp
  then have l: "last (py_strip [c] s) \<noteq> c" using u r by (simp add: last_rev)
  have t: "?t = rev ?u @ rev (takeWhile ?P (rev ?t))"
    by (metis rev_append rev_rev_ident takeWhile_dropWhile_id)
  have tne: "?t \<noteq> []"
  proof
    assume "?t = []"
    then have "?u = []" by (simp only: rev.simps(1) dropWhile.simps(1))
    with u show False by simp
  qed
  have "hd ?t \<noteq> c" using hd_dropWhile[of ?P s] tne by simp
  moreover have "hd ?t = hd (rev ?u)" using t u by (metis hd_append2 rev_is_Nil_conv)
  ultimately have "hd (py_strip [c] s) \<noteq> c" using r by simp
  with l show ?thesis by simp
qed

lemma py_strip_id:
  assumes "s \<noteq> []" "hd s \<noteq> c" "last s \<noteq> c"
  shows "py_strip [c] s = s"
proof -
  from assms have 1: "dropWhile (\<lambda>x. x \<in> set [c]) s = s" by (cases s) auto
  from assms have "rev s \<noteq> []" "hd (rev s) \<noteq> c" by (simp_all add: hd_rev)
  then have 2: "dropWhile (\<lambda>x. x \<in> set [c]) (rev s) = rev s" by (cases "rev s") auto
  show ?thesis unfolding py_strip_def 1 2 by simp
qed

subsection \<open>Scoped prefixes\<close>

text \<open>
  Claim C1. Whatever the state and whatever the body of a \<open>with logger.context(p)\<close> block
  does, the prefix after the block is the prefix before it: the body may complete,
  return or raise (its outcome, value or exception, is the outcome of the block), and it
  may even assign the prefix itself. A call of \<open>_get_path\<close> made after the exception was
  caught resolves against the prefix from before the block.
\<close>

theorem context_restores_prefix:
  "entity_prefix (self (snd (with_context p body w))) = entity_prefix (self w)
   \<and> fst (with_context p body w) = fst (body (w\<lparr>self := snd (context_enter p (self w))\<rparr>))
   \<and> fst (call_get_path rel (snd (try_except (with_context p body) (\<lambda>e w'. (Inr x, w')) w)))
       = Inr (get_path (self w) rel)"
  by (auto simp: with_context_def context_enter_def context_exit_def call_get_path_def
      try_except_def get_path_def Let_def split: prod.splits sum.splits pyexn.splits)

text \<open>
  An instance: under the prefix \<open>run\<close>, a body that overwrites the prefix and then raises
  \<open>ValueError\<close>; the block raises it, and the probe afterwards resolves under \<open>run\<close>.
\<close>

theorem context_restores_prefix_witness:
  "entity_prefix (self (snd (with_context ''val''
      (\<lambda>w. (Inl (PyException ''ValueError'') :: pyexn + unit,
             w\<lparr>self := (self w)\<lparr>entity_prefix := ''lost''\<rparr>\<rparr>))
      (example_world ''run'')))) = ''run''
   \<and> fst (with_context ''val''
      (\<lambda>w. (Inl (PyException ''ValueError'') :: pyexn + unit,
             w\<lparr>self := (self w)\<lparr>entity_prefix := ''lost''\<rparr>\<rparr>))
      (example_world ''run'')) = Inl (PyException ''ValueError'')
   \<and> fst (call_get_path ''loss'' (snd (try_except (with_context ''val''
      (\<lambda>w. (Inl (PyException ''ValueError'') :: pyexn + unit,
             w\<lparr>self := (self w)\<lparr>entity_prefix := ''lost''\<rparr>\<rparr>)))
      (\<lambda>e w'. (Inr (), w')) (example_world ''run'')))) = Inr ''run/loss''"
  using context_restores_prefix [of "''val''"
      "\<lambda>w. (Inl (PyException ''ValueError''), w\<lparr>self := (self w)\<lparr>entity_prefix := ''lost''\<rparr>\<rparr>)"
      "example_world ''run''" "''loss''" "()"]
  by (simp add: example_world_def get_path_def py_strip_def)

subsection \<open>Path composition\<close>

text \<open>
  Claim C2. \<open>_get_path\<close> (the spec's \<open>resolve_path\<close>): with an empty prefix the relative
  path comes back as it is; otherwise the result is the prefix, one \<open>/\<close> and the relative
  path, with the \<open>/\<close> characters at its two ends stripped: the concatenation is the
  result between two runs of \<open>/\<close>, and the result neither starts nor ends with \<open>/\<close>. The
  call returns that string, raises nothing and leaves the world as it was; being a
  function of the object and the argument, it gives the same string whenever both are
  the same: a second call right after the first returns what the first returned.
\<close>

theorem get_path_resolves:
  "(if entity_prefix obj = [] then get_path obj rel = rel
    else get_path obj rel = py_strip ''/'' (entity_prefix obj @ ''/'' @ rel)
       \<and> (\<exists>i j. entity_prefix obj @ ''/'' @ rel
                  = replicate i CHR ''/'' @ get_path obj rel @ replicate j CHR ''/'')
       \<and> (get_path obj rel = []
            \<or> (hd (get_path obj rel) \<noteq> CHR ''/'' \<and> last (get_path obj rel) \<noteq> CHR ''/'')))
   \<and> call_get_path rel w = (Inr (get_path (self w) rel), w)
   \<and> fst (call_get_path rel (snd (call_get_path rel w))) = fst (call_get_path rel w)"
proof -
  have "get_path obj rel = rel" if "entity_prefix obj = []"
    using that by (simp add: get_path_def)
  moreover have "get_path obj rel = py_strip ''/'' (entity_prefix obj @ ''/'' @ rel)"
    if "entity_prefix obj \<noteq> []"
    using that by (simp add: get_path_def)
  moreover have "\<exists>i j. entity_prefix obj @ ''/'' @ rel
                  = replicate i CHR ''/'' @ get_path obj rel @ replicate j CHR ''/''"
    if "entity_prefix obj \<noteq> []"
    using that py_strip_decomp [of "entity_prefix obj @ ''/'' @ rel" "CHR ''/''"]
    by (simp add: get_path_def)
  moreover have "get_path obj rel = []
      \<or> (hd (get_path obj rel) \<noteq> CHR ''/'' \<and> last (get_path obj rel) \<noteq> CHR ''/'')"
    if "entity_prefix obj \<noteq> []"
    using that py_strip_ends [of "CHR ''/''" "entity_prefix obj @ ''/'' @ rel"]
    by (simp add: get_path_def)
  moreover have "call_get_path rel w = (Inr (get_path (self w) rel), w)"
    by (simp add: call_get_path_def)
  moreover have "fst (call_get_path rel (snd (call_get_path rel w))) = fst (call_get_path rel w)"
    by (simp add: call_get_path_def)
  ultimately show ?thesis by presburger
qed

theorem get_path_resolves_witness:
  "get_path (self (example_world [])) ''metrics/loss'' = ''metrics/loss''
   \<and> get_path (self (example_world ''/exp'')) ''loss/'' = ''exp/loss''
   \<and> call_get_path ''loss/'' (example_world ''/exp'') = (Inr ''exp/loss'', example_world ''/exp'')"
  using get_path_resolves [of "self (example_world [])" "''metrics/loss''" "example_world ''/exp''"]
    get_path_resolves [of "self (example_world ''/exp'')" "''loss/''" "example_world ''/exp''"]
  by (simp add: example_world_def py_strip_def)

text \<open>
  Claim C3, as amended. With the prefix \<open>a/b/\<close> and the relative path \<open>/c\<close> the result is
  \<open>a/b///c\<close>: the concatenation has three separators in a row, none of them at an end, and
  \<open>strip\<close> removes separators at the two ends only.
\<close>

theorem get_path_keeps_inner_separators:
  "get_path (obj\<lparr>entity_prefix := ''a/b/''\<rparr>) ''/c'' = ''a/b///c''"
  by (simp add: get_path_def py_strip_def)

text \<open>The claim as the spec states it, that the result is \<open>a/b/c\<close>, fails.\<close>

theorem get_path_normalizes_counterexample:
  "get_path (self (example_world ''a/b/'')) ''/c'' \<noteq> ''a/b/c''"
  by (simp add: get_path_def py_strip_def example_world_def)

text \<open>
  Claim C4. Entering \<open>context(p)\<close> saves the prefix and sets it to the old prefix, a \<open>/\<close>
  and \<open>p\<close>, or to \<open>p\<close> alone when the old prefix is empty. So inside \<open>context(a)\<close> and a
  nested \<open>context(b)\<close> under a prefix \<open>outer\<close> the prefix is \<open>outer/a/b\<close>, after the inner
  block it is \<open>outer/a\<close> again, and after the outer block it is \<open>outer\<close>. (Under an empty
  outer prefix the same rule gives \<open>a/b\<close>, or \<open>b\<close> when \<open>a\<close> is empty too, then \<open>a\<close>.)
\<close>

theorem context_composes_prefix:
  "fst (context_enter p obj) = entity_prefix obj
   \<and> entity_prefix (snd (context_enter p obj))
       = (if entity_prefix obj = [] then p else entity_prefix obj @ ''/'' @ p)
   \<and> fst (with_context p current_prefix w)
       = Inr (if entity_prefix (self w) = [] then p else entity_prefix (self w) @ ''/'' @ p)
   \<and> with_context a
        (seq (with_context b current_prefix)
             (\<lambda>inner. seq current_prefix (\<lambda>after w2. (Inr (inner, after), w2)))) w
       = (Inr (if entity_prefix (self w) = [] then (if a = [] then b else a @ ''/'' @ b)
               else entity_prefix (self w) @ ''/'' @ a @ ''/'' @ b,
               if entity_prefix (self w) = [] then a else entity_prefix (self w) @ ''/'' @ a),
          w)"
  by (simp add: with_context_def context_enter_def context_exit_def current_prefix_def
      Let_def seq_def)

theorem context_composes_prefix_witness:
  "with_context ''a''
     (seq (with_context ''b'' current_prefix)
          (\<lambda>inner. seq current_prefix (\<lambda>after w2. (Inr (inner, after), w2))))
     (example_world ''outer'')
   = (Inr (''outer/a/b'', ''outer/a''), example_world ''outer'')
   \<and> entity_prefix (self (example_world ''outer'')) = ''outer''
   \<and> fst (with_context ''a'' current_prefix (example_world [])) = Inr ''a''"
  using context_composes_prefix [of "''a''" "self (example_world ''outer'')"
      "example_world []" "''a''" "''b''"]
    context_composes_prefix [of "''a''" "self (example_world ''outer'')"
      "example_world ''outer''" "''a''" "''b''"]
  by (simp add: example_world_def)

subsection \<open>Text records\<close>

text \<open>
  Claim C5. Each of \<open>info\<close>, \<open>warning\<close>, \<open>debug\<close>, \<open>error\<close> and \<open>critical\<close> makes exactly one
  call on the SDK, a text record at the path composed from \<open>logs/\<close> and the method's
  name, tagged with the SDK's level of that name (\<open>INFO\<close>, \<open>WARN\<close>, \<open>DEBUG\<close>, \<open>ERROR\<close>,
  \<open>CRITICAL\<close>), and leaves the object as it was.
\<close>

theorem text_methods_forward_one_record:
  "calls (rr (snd (info m w)))
     = calls (rr w) @ [Log (get_path (self w) ''logs/info'') (TextLog m ''INFO'')]
   \<and> calls (rr (snd (warning m w)))
     = calls (rr w) @ [Log (get_path (self w) ''logs/warning'') (TextLog m ''WARN'')]
   \<and> calls (rr (snd (debug m w)))
     = calls (rr w) @ [Log (get_path (self w) ''logs/debug'') (TextLog m ''DEBUG'')]
   \<and> calls (rr (snd (error m w)))
     = calls (rr w) @ [Log (get_path (self w) ''logs/error'') (TextLog m ''ERROR'')]
   \<and> calls (rr (snd (critical m w)))
     = calls (rr w) @ [Log (get_path (self w) ''logs/critical'') (TextLog m ''CRITICAL'')]
   \<and> self (snd (info m w)) = self w \<and> self (snd (warning m w)) = self w
   \<and> self (snd (debug m w)) = self w \<and> self (snd (error m w)) = self w
   \<and> self (snd (critical m w)) = self w"
  by (simp add: info_def warning_def debug_def error_def critical_def call_sink_def
      rr_log_def forward_def Let_def split: prod.splits option.splits)

subsection \<open>Scalars and the step timeline\<close>

text \<open>
  Claim C6. \<open>log_scalar\<close> with a step first calls \<open>rr.set_time\<close> for the timeline \<open>step\<close>
  with that step as the sequence coordinate, and then, when the SDK accepted this,
  forwards one scalar record at the composed path; the coordinate of \<open>step\<close> is then the
  step. Without a step it forwards the scalar record only, and the timelines stay as
  they were, as they do under a text record. So with an SDK that accepts the calls,
  after \<open>log_scalar\<close> with step \<open>n\<close> and a text record, the coordinate of \<open>step\<close> is \<open>n\<close>
  when the second \<open>log_scalar\<close>, without a step, is called, and still is after it; the
  three statements make four calls, one of them \<open>rr.set_time\<close>.
\<close>

theorem log_scalar_step_persists:
  "calls (rr (snd (log_scalar path v (Some n) w)))
     = calls (rr w) @ SetTime ''step'' (Sequence n) #
         (if raises (rr w) (SetTime ''step'' (Sequence n)) = None
          then [Log (get_path (self w) path) (Scalars v)] else [])
   \<and> timelines (rr (snd (log_scalar path v (Some n) w)))
     = (if raises (rr w) (SetTime ''step'' (Sequence n)) = None
        then (timelines (rr w))(''step'' \<mapsto> Sequence n) else timelines (rr w))
   \<and> calls (rr (snd (log_scalar path v None w)))
     = calls (rr w) @ [Log (get_path (self w) path) (Scalars v)]
   \<and> timelines (rr (snd (log_scalar path v None w))) = timelines (rr w)
   \<and> timelines (rr (snd (info m w))) = timelines (rr w)
   \<and> (raises (rr w) = (\<lambda>c. None) \<longrightarrow>
        timelines (rr (snd (seq (log_scalar path v (Some n)) (\<lambda>u. info m) w))) ''step''
          = Some (Sequence n)
        \<and> seq (log_scalar path v (Some n))
              (\<lambda>u. seq (info m) (\<lambda>u. log_scalar path' v' None)) w
          = (Inr (),
             w\<lparr>rr := (rr w)\<lparr>calls := calls (rr w) @
                      [SetTime ''step'' (Sequence n),
                       Log (get_path (self w) path) (Scalars v),
                       Log (get_path (self w) ''logs/info'') (TextLog m ''INFO''),
                       Log (get_path (self w) path') (Scalars v')],
                    timelines := (timelines (rr w))(''step'' \<mapsto> Sequence n)\<rparr>\<rparr>))"
  by (auto simp: log_scalar_def info_def seq_def call_sink_def rr_set_time_def rr_log_def
      forward_def Let_def split: prod.splits option.splits sum.splits)

theorem log_scalar_step_persists_witness:
  "raises (rr (example_world [])) = (\<lambda>c. None)
   \<and> timelines (rr (snd (seq (log_scalar ''loss'' 1 (Some 5)) (\<lambda>u. info ''epoch done'')
        (example_world [])))) ''step'' = Some (Sequence 5)
   \<and> fst (seq (log_scalar ''loss'' 1 (Some 5))
        (\<lambda>u. seq (info ''epoch done'') (\<lambda>u. log_scalar ''acc'' 2 None)) (example_world []))
      = Inr ()
   \<and> timelines (rr (snd (seq (log_scalar ''loss'' 1 (Some 5))
        (\<lambda>u. seq (info ''epoch done'') (\<lambda>u. log_scalar ''acc'' 2 None)) (example_world []))))
        ''step'' = Some (Sequence 5)
   \<and> calls (rr (snd (seq (log_scalar ''loss'' 1 (Some 5))
        (\<lambda>u. seq (info ''epoch done'') (\<lambda>u. log_scalar ''acc'' 2 None)) (example_world []))))
      = [SetTime ''step'' (Sequence 5), Log ''loss'' (Scalars 1),
         Log ''logs/info'' (TextLog ''epoch done'' ''INFO''), Log ''acc'' (Scalars 2)]"
  using log_scalar_step_persists [of "''loss''" 1 5 "example_world []" "''epoch done''"
      "''acc''" 2]
  by (simp add: example_world_def fresh_sink_def get_path_def)

subsection \<open>Dictionaries\<close>

lemma log_dict_content:
  "log_dict json_dumps py_str path d w =
     (case (case json_dumps d 2 py_str of
              Inr text \<Rightarrow> Inr text
            | Inl (PyException e) \<Rightarrow> py_str d
            | Inl (PyBaseException e) \<Rightarrow> Inl (PyBaseException e)) of
        Inl e \<Rightarrow> (Inl e, w)
      | Inr text \<Rightarrow>
          call_sink (rr_log (get_path (self w) path) (TextDocument text ''text/markdown'')) w)"
  by (simp add: log_dict_def Let_def)

lemma log_document_calls:
  "calls (rr (snd (call_sink (rr_log p r) w))) = calls (rr w) @ [Log p r]"
  by (simp add: call_sink_def rr_log_def forward_def Let_def split: option.splits)

lemma log_document_outcome:
  "fst (call_sink (rr_log p r) w)
     = (case raises (rr w) (Log p r) of Some e \<Rightarrow> Inl e | None \<Rightarrow> Inr ())"
  by (simp add: call_sink_def rr_log_def forward_def Let_def split: option.splits)

text \<open>
  Claim C7, as amended. \<open>log_dict\<close> serializes with
  \<open>json.dumps(dictionary, indent=2, default=str)\<close>, so that the serializer hands the values
  it cannot serialize natively to \<open>str\<close>, and it uses no other result of the serializer.
  When that call returns a text, or raises an \<open>Exception\<close> and \<open>str\<close> of the dictionary
  returns a text, \<open>log_dict\<close> raises nothing from serialization: it makes exactly one call
  on the SDK, a text document at the composed path whose media type is \<open>text/markdown\<close>
  and whose content is exactly that text, so a non-empty one whenever that text is not
  empty, and its outcome is the SDK's answer to that call. When the serializer raises an
  \<open>Exception\<close> and \<open>str\<close> of the dictionary raises too, or when the serializer raises
  something that is no \<open>Exception\<close>, \<open>log_dict\<close> raises that exception and forwards
  nothing.
\<close>

theorem log_dict_forwards_document:
  "((json_dumps d 2 py_str = Inr text
       \<or> ((\<exists>e. json_dumps d 2 py_str = Inl (PyException e)) \<and> py_str d = Inr text)) \<longrightarrow>
      calls (rr (snd (log_dict json_dumps py_str path d w)))
        = calls (rr w) @ [Log (get_path (self w) path) (TextDocument text ''text/markdown'')]
      \<and> fst (log_dict json_dumps py_str path d w)
        = (case raises (rr w)
                  (Log (get_path (self w) path) (TextDocument text ''text/markdown'')) of
             Some e \<Rightarrow> Inl e
           | None \<Rightarrow> Inr ())
      \<and> (text \<noteq> [] \<longrightarrow>
           (\<exists>content. last (calls (rr (snd (log_dict json_dumps py_str path d w))))
                         = Log (get_path (self w) path) (TextDocument content ''text/markdown'')
                      \<and> content \<noteq> [])))
   \<and> (json_dumps d 2 py_str = other_dumps d 2 py_str \<longrightarrow>
        log_dict json_dumps py_str path d w = log_dict other_dumps py_str path d w)
   \<and> ((\<exists>e. json_dumps d 2 py_str = Inl (PyException e)) \<and> py_str d = Inl x \<longrightarrow>
        log_dict json_dumps py_str path d w = (Inl x, w))
   \<and> (json_dumps d 2 py_str = Inl (PyBaseException b) \<longrightarrow>
        log_dict json_dumps py_str path d w = (Inl (PyBaseException b), w))"
proof -
  let ?doc = "Log (get_path (self w) path) (TextDocument text ''text/markdown'')"
  have forwards: "log_dict json_dumps py_str path d w
      = call_sink (rr_log (get_path (self w) path) (TextDocument text ''text/markdown'')) w"
    if "json_dumps d 2 py_str = Inr text
        \<or> ((\<exists>e. json_dumps d 2 py_str = Inl (PyException e)) \<and> py_str d = Inr text)"
    using that by (auto simp: log_dict_content)
  have 1: "calls (rr (snd (log_dict json_dumps py_str path d w))) = calls (rr w) @ [?doc]"
    if "json_dumps d 2 py_str = Inr text
        \<or> ((\<exists>e. json_dumps d 2 py_str = Inl (PyException e)) \<and> py_str d = Inr text)"
    using forwards [OF that] by (simp add: log_document_calls)
  have 2: "fst (log_dict json_dumps py_str path d w)
      = (case raises (rr w) ?doc of Some e \<Rightarrow> Inl e | None \<Rightarrow> Inr ())"
    if "json_dumps d 2 py_str = Inr text
        \<or> ((\<exists>e. json_dumps d 2 py_str = Inl (PyException e)) \<and> py_str d = Inr text)"
    using forwards [OF that] by (simp add: log_document_outcome)
  have 3: "\<exists>content. last (calls (rr (snd (log_dict json_dumps py_str path d w))))
                = Log (get_path (self w) path) (TextDocument content ''text/markdown'')
             \<and> content \<noteq> []"
    if "json_dumps d 2 py_str = Inr text
        \<or> ((\<exists>e. json_dumps d 2 py_str = Inl (PyException e)) \<and> py_str d = Inr text)"
      and "text \<noteq> []"
    using 1 [OF that(1)] that(2) by simp
  have 4: "log_dict json_dumps py_str path d w = log_dict other_dumps py_str path d w"
    if "json_dumps d 2 py_str = other_dumps d 2 py_str"
    using that by (simp add: log_dict_content)
  have 5: "log_dict json_dumps py_str path d w = (Inl x, w)"
    if "(\<exists>e. json_dumps d 2 py_str = Inl (PyException e)) \<and> py_str d = Inl x"
    using that by (auto simp: log_dict_content)
  have 6: "log_dict json_dumps py_str path d w = (Inl (PyBaseException b), w)"
    if "json_dumps d 2 py_str = Inl (PyBaseException b)"
    using that by (simp add: log_dict_content)
  from 1 2 3 4 5 6 show ?thesis by blast
qed

theorem log_dict_forwards_document_witness:
  "example_json_dumps EmptyDict 2 example_str = Inr ''{}''
   \<and> calls (rr (snd (log_dict example_json_dumps example_str ''config'' EmptyDict
        (example_world ''exp''))))
     = [Log ''exp/config'' (TextDocument ''{}'' ''text/markdown'')]
   \<and> fst (log_dict example_json_dumps example_str ''config'' EmptyDict (example_world ''exp''))
     = Inr ()
   \<and> log_dict example_json_dumps example_str ''config'' EmptyDict (example_world ''exp'')
     = log_dict (\<lambda>d indent dflt. Inr ''{}'') example_str ''config'' EmptyDict
         (example_world ''exp'')
   \<and> example_str DateValue = Inr ''2024-01-02''
   \<and> example_json_dumps DateDict 2 example_str
     = Inr (''{'' @ [CHR 0x0A] @ ''  '' @ [CHR 0x22] @ ''k'' @ [CHR 0x22] @ '': ''
            @ [CHR 0x22] @ ''2024-01-02'' @ [CHR 0x22] @ [CHR 0x0A] @ ''}'')
   \<and> calls (rr (snd (log_dict example_json_dumps example_str ''config'' DateDict
        (example_world ''exp''))))
     = [Log ''exp/config'' (TextDocument
          (''{'' @ [CHR 0x0A] @ ''  '' @ [CHR 0x22] @ ''k'' @ [CHR 0x22] @ '': ''
            @ [CHR 0x22] @ ''2024-01-02'' @ [CHR 0x22] @ [CHR 0x0A] @ ''}'') ''text/markdown'')]
   \<and> example_json_dumps TupleKeyDict 2 example_str = Inl (PyException ''TypeError'')
   \<and> example_str TupleKeyDict = Inr ''{(1, 2): 3}''
   \<and> calls (rr (snd (log_dict example_json_dumps example_str ''config'' TupleKeyDict
        (example_world ''exp''))))
     = [Log ''exp/config'' (TextDocument ''{(1, 2): 3}'' ''text/markdown'')]
   \<and> example_json_dumps UnprintableDict 2 example_str = Inl (PyException ''ValueError'')
   \<and> example_str UnprintableDict = Inl (PyException ''ValueError'')
   \<and> calls (rr (snd (log_dict example_json_dumps example_str ''config'' UnprintableDict
        (example_world ''exp'')))) = []
   \<and> example_json_dumps ExitingDict 2 example_str = Inl (PyBaseException ''SystemExit'')
   \<and> log_dict example_json_dumps example_str ''config'' ExitingDict (example_world ''exp'')
     = (Inl (PyBaseException ''SystemExit''), example_world ''exp'')"
proof -
  let ?w = "example_world ''exp''"
  let ?date = "''{'' @ [CHR 0x0A] @ ''  '' @ [CHR 0x22] @ ''k'' @ [CHR 0x22] @ '': ''
            @ [CHR 0x22] @ ''2024-01-02'' @ [CHR 0x22] @ [CHR 0x0A] @ ''}''"
  have p: "get_path (self ?w) ''config'' = ''exp/config''"
    by (simp add: example_world_def get_path_def py_strip_def)
  have c: "calls (rr ?w) = []" and r: "raises (rr ?w) = (\<lambda>c. None)"
    by (simp_all add: example_world_def fresh_sink_def)
  have e1: "example_json_dumps EmptyDict 2 example_str = Inr ''{}''" by simp
  have e2: "example_json_dumps EmptyDict 2 example_str
      = (\<lambda>d indent dflt. Inr ''{}'') EmptyDict 2 example_str" by simp
  have d0: "example_str DateValue = Inr ''2024-01-02''" by simp
  have d1: "example_json_dumps DateDict 2 example_str = Inr ?date"
    by (simp add: json_one_entry_def json_string_def eval_nat_numeral)
  have t1: "example_json_dumps TupleKeyDict 2 example_str = Inl (PyException ''TypeError'')"
    and t2: "example_str TupleKeyDict = Inr ''{(1, 2): 3}''" by simp_all
  have u1: "example_json_dumps UnprintableDict 2 example_str = Inl (PyException ''ValueError'')"
    and u2: "example_str UnprintableDict = Inl (PyException ''ValueError'')"
    by (simp_all add: json_one_entry_def)
  have x1: "example_json_dumps ExitingDict 2 example_str = Inl (PyBaseException ''SystemExit'')"
    by (simp add: json_one_entry_def)
  have a: "calls (rr (snd (log_dict example_json_dumps example_str ''config'' EmptyDict ?w)))
        = [Log ''exp/config'' (TextDocument ''{}'' ''text/markdown'')]
      \<and> fst (log_dict example_json_dumps example_str ''config'' EmptyDict ?w) = Inr ()"
    using log_dict_forwards_document [of example_json_dumps EmptyDict example_str "''{}''"
        "''config''" ?w example_json_dumps] e1 p c r
    by simp
  have a': "log_dict example_json_dumps example_str ''config'' EmptyDict ?w
        = log_dict (\<lambda>d indent dflt. Inr ''{}'') example_str ''config'' EmptyDict ?w"
    by (rule log_dict_forwards_document [of example_json_dumps EmptyDict example_str "''{}''"
        "''config''" ?w "\<lambda>d indent dflt. Inr ''{}''", THEN conjunct2, THEN conjunct1,
        THEN mp, OF e2])
  have b: "calls (rr (snd (log_dict example_json_dumps example_str ''config'' DateDict ?w)))
        = [Log ''exp/config'' (TextDocument ?date ''text/markdown'')]"
    using log_dict_forwards_document [of example_json_dumps DateDict example_str ?date
        "''config''" ?w example_json_dumps] d1 p c
    by simp
  have t: "calls (rr (snd (log_dict example_json_dumps example_str ''config'' TupleKeyDict ?w)))
        = [Log ''exp/config'' (TextDocument ''{(1, 2): 3}'' ''text/markdown'')]"
    using log_dict_forwards_document [of example_json_dumps TupleKeyDict example_str
        "''{(1, 2): 3}''" "''config''" ?w example_json_dumps] t1 t2 p c
    by simp
  have u: "calls (rr (snd (log_dict example_json_dumps example_str ''config'' UnprintableDict ?w)))
        = []"
    using log_dict_forwards_document [of example_json_dumps UnprintableDict example_str "[]"
        "''config''" ?w example_json_dumps "PyException ''ValueError''"] u1 u2 c
    by simp
  have x: "log_dict example_json_dumps example_str ''config'' ExitingDict ?w
        = (Inl (PyBaseException ''SystemExit''), ?w)"
    using log_dict_forwards_document [of example_json_dumps ExitingDict example_str "[]"
        "''config''" ?w example_json_dumps "PyException ''ValueError''" "''SystemExit''"] x1
    by simp
  from e1 a a' d0 d1 b t1 t2 t u1 u2 u x1 x show ?thesis by blast
qed

text \<open>
  The claim as the spec states it, for every dictionary, fails: on the dictionary whose
  value cannot be printed the serializer raises and \<open>str\<close> of the dictionary raises, and
  \<open>log_dict\<close> raises the second exception and forwards nothing.
\<close>

theorem log_dict_never_raises_counterexample:
  "log_dict example_json_dumps example_str ''config'' UnprintableDict (example_world ''exp'')
   = (Inl (PyException ''ValueError''), example_world ''exp'')"
  by (simp add: log_dict_def json_one_entry_def)

text \<open>
  The content is the library's text and nothing else: on the instance of the subclass
  whose \<open>__str__\<close> returns the empty string, the document forwarded is empty.
\<close>

lemma log_dict_blank_document:
  "log_dict example_json_dumps example_str ''config'' BlankDict (example_world ''exp'')
   = (Inr (), (example_world ''exp'')\<lparr>rr := fresh_sink
          \<lparr>calls := [Log ''exp/config'' (TextDocument [] ''text/markdown'')]\<rparr>\<rparr>)"
  by (simp add: log_dict_def json_one_entry_def call_sink_def rr_log_def forward_def
      example_world_def fresh_sink_def get_path_def py_strip_def)

subsection \<open>Construction\<close>

text \<open>
  Claim C8, as amended. The constructor calls \<open>rr.init\<close> exactly once, with the
  application id and the value of \<open>spawn_viewer\<close> (\<open>True\<close> when the option or the whole
  configuration is absent), and then, when that call did not raise, calls \<open>rr.save\<close> once
  with the value of \<open>save_path\<close> if and only if the option is present and its value is
  true in Python's sense (for a string: not empty); it makes no other call.
\<close>

theorem init_calls_sink:
  "calls (snd (Logger_init app prefix cfg s)) =
     (let c = (case cfg of None \<Rightarrow> Map.empty | Some c \<Rightarrow> c);
          spawn = (case c ''spawn_viewer'' of None \<Rightarrow> PyBool True | Some v \<Rightarrow> v);
          save = (case c ''save_path'' of
                    None \<Rightarrow> []
                  | Some p \<Rightarrow> if truthy p then [Save p] else [])
      in calls s @ Init app spawn # (if raises s (Init app spawn) = None then save else []))"
  by (auto simp: Logger_init_def config_get_def rr_init_def rr_save_def forward_def Let_def
      split: prod.splits option.splits sum.splits)

theorem init_calls_sink_witness:
  "calls (snd (Logger_init ''app'' None
      (Some [''spawn_viewer'' \<mapsto> PyBool False, ''save_path'' \<mapsto> PyStr ''out.rrd'']) fresh_sink))
     = [Init ''app'' (PyBool False), Save (PyStr ''out.rrd'')]
   \<and> calls (snd (Logger_init ''app'' None None fresh_sink)) = [Init ''app'' (PyBool True)]"
  using init_calls_sink [of "''app''" None
      "Some [''spawn_viewer'' \<mapsto> PyBool False, ''save_path'' \<mapsto> PyStr ''out.rrd'']" fresh_sink]
    init_calls_sink [of "''app''" None None fresh_sink]
  by (simp add: fresh_sink_def)

text \<open>
  The claim as the spec states it fails for a \<open>save_path\<close> that is present and empty:
  the constructor succeeds and \<open>rr.save\<close> is not called.
\<close>

theorem init_save_path_present_counterexample:
  "[''save_path'' \<mapsto> PyStr []] ''save_path'' = Some (PyStr [])
   \<and> Logger_init ''app'' None (Some [''save_path'' \<mapsto> PyStr []]) fresh_sink
     = (Inr \<lparr>application_id = ''app'', entity_prefix = [],
              config = [''save_path'' \<mapsto> PyStr []]\<rparr>,
        fresh_sink\<lparr>calls := [Init ''app'' (PyBool True)]\<rparr>)"
  by (simp add: Logger_init_def config_get_def rr_init_def forward_def fresh_sink_def)

text \<open>
  Claim C10. The constructor checks neither argument. Whatever the application id, the
  empty string too, its first call on the SDK is \<open>rr.init\<close> with that very string; when
  the SDK accepts the calls, the constructor returns the object with that application id;
  and an exception it ends with is one the SDK raised. An absent \<open>entity_prefix\<close> and an
  empty one give the same result, an object with the empty prefix.
\<close>

theorem init_no_validation:
  "Logger_init app None cfg s = Logger_init app (Some []) cfg s
   \<and> (\<exists>spawn rest. calls (snd (Logger_init app prefix cfg s)) = calls s @ Init app spawn # rest)
   \<and> (raises s = (\<lambda>c. None) \<longrightarrow>
        fst (Logger_init app prefix cfg s)
          = Inr \<lparr>application_id = app,
                 entity_prefix = (case prefix of None \<Rightarrow> [] | Some p \<Rightarrow> p),
                 config = (case cfg of None \<Rightarrow> Map.empty | Some c \<Rightarrow> c)\<rparr>)
   \<and> (\<forall>e. fst (Logger_init app prefix cfg s) = Inl e \<longrightarrow> (\<exists>c. raises s c = Some e))"
  by (auto simp: Logger_init_def config_get_def rr_init_def rr_save_def forward_def Let_def
      split: prod.splits option.splits sum.splits)

theorem init_no_validation_witness:
  "raises fresh_sink = (\<lambda>c. None)
   \<and> Logger_init [] None None fresh_sink = Logger_init [] (Some []) None fresh_sink
   \<and> fst (Logger_init [] None None fresh_sink)
     = Inr \<lparr>application_id = [], entity_prefix = [], config = Map.empty\<rparr>
   \<and> calls (snd (Logger_init [] None None fresh_sink)) = [Init [] (PyBool True)]"
  using init_no_validation [of "[]" None fresh_sink None]
  by (simp add: fresh_sink_def Logger_init_def config_get_def rr_init_def forward_def)

subsection \<open>Well-formed prefixes\<close>

lemma segments_nonempty: "segments s \<noteq> []"
  by (induction s) (auto split: list.splits)

lemma segments_append: "segments (a @ CHR ''/'' # b) = segments a @ segments b"
  by (induction a) (auto split: list.splits simp: segments_nonempty)

lemma segments_snoc_sep: "segments (s @ ''/'') = segments s @ [[]]"
  using segments_append [of s "[]"] by simp

lemma well_formed_join:
  "well_formed (a @ CHR ''/'' # b) \<longleftrightarrow> well_formed a \<and> well_formed b"
  by (simp add: well_formed_def segments_append)

lemma well_formed_hd: "well_formed s \<Longrightarrow> s \<noteq> [] \<and> hd s \<noteq> CHR ''/''"
  by (cases s) (auto simp: well_formed_def)

lemma well_formed_last:
  assumes "well_formed s"
  shows "last s \<noteq> CHR ''/''"
proof
  assume l: "last s = CHR ''/''"
  from assms have "s \<noteq> []" by (auto simp: well_formed_def)
  with l have "s = butlast s @ ''/''" by (metis append_butlast_last_id)
  then have "segments s = segments (butlast s) @ [[]]" by (metis segments_snoc_sep)
  with assms show False by (simp add: well_formed_def)
qed

lemma well_formed_strip: "well_formed s \<Longrightarrow> py_strip ''/'' s = s"
  using well_formed_hd well_formed_last py_strip_id by metis

lemma get_path_well_formed:
  "empty_or_well_formed (entity_prefix obj) \<Longrightarrow> well_formed rel
   \<Longrightarrow> well_formed (get_path obj rel)"
  by (auto simp: empty_or_well_formed_def get_path_def well_formed_join well_formed_strip)

text \<open>One entry or exit keeps the current prefix and the saved ones empty or well formed.\<close>

lemma scope_step_inv:
  assumes "empty_or_well_formed (entity_prefix obj)"
    and "list_all empty_or_well_formed saved"
    and "list_all well_formed (entered [ev])"
    and "scope_step (obj, saved) ev = (obj', saved')"
  shows "empty_or_well_formed (entity_prefix obj') \<and> list_all empty_or_well_formed saved'"
  using assms
  by (cases ev; cases saved)
    (auto simp: empty_or_well_formed_def context_enter_def context_exit_def Let_def
      well_formed_join split: if_splits)

lemma run_scopes_inv:
  assumes "empty_or_well_formed (entity_prefix obj)"
    and "list_all empty_or_well_formed saved"
    and "list_all well_formed (entered evs)"
    and "run_scopes evs (obj, saved) = (obj', saved')"
  shows "empty_or_well_formed (entity_prefix obj') \<and> list_all empty_or_well_formed saved'"
  using assms
proof (induction evs arbitrary: obj saved)
  case Nil
  then show ?case by (simp add: run_scopes_def)
next
  case (Cons ev evs)
  obtain o1 s1 where st: "scope_step (obj, saved) ev = (o1, s1)"
    by (cases "scope_step (obj, saved) ev")
  have ev: "list_all well_formed (entered [ev])" and evs: "list_all well_formed (entered evs)"
    using Cons.prems(3) by (cases ev; simp)+
  from scope_step_inv [OF Cons.prems(1,2) ev st]
  have i: "empty_or_well_formed (entity_prefix o1)" "list_all empty_or_well_formed s1"
    by simp_all
  have r: "run_scopes evs (o1, s1) = (obj', saved')"
    using Cons.prems(4) st by (simp add: run_scopes_def)
  show ?case using Cons.IH [OF i evs r] by simp
qed

text \<open>A \<open>with\<close> block is an entry, the body and an exit.\<close>

lemma with_context_as_events:
  "with_context p body w =
     (case scope_step (self w, saved) (Enter p) of
        (obj1, st) \<Rightarrow>
          (case body (w\<lparr>self := obj1\<rparr>) of
             (r, w') \<Rightarrow> (r, w'\<lparr>self := fst (scope_step (self w', st) Exit)\<rparr>)))"
  by (simp add: with_context_def split: prod.splits)

lemma init_prefix:
  "fst (Logger_init app prefix cfg s) = Inr obj
   \<Longrightarrow> entity_prefix obj = (case prefix of None \<Rightarrow> [] | Some p \<Rightarrow> p)"
  by (auto simp: Logger_init_def Let_def split: prod.splits sum.splits if_splits)

text \<open>
  Claim C9, as amended. When the constructor's \<open>entity_prefix\<close> is absent, empty or well
  formed and every \<open>path_prefix\<close> of a \<open>context\<close> entry is well formed, then after the
  construction and any sequence of entries and exits the current prefix is empty or well
  formed, so it has no separator at either end, and composing it with a well-formed
  relative path gives a well-formed path: non-empty segments joined by single separators.
\<close>

theorem well_formed_prefix_invariant:
  assumes "prefix = None \<or> prefix = Some [] \<or> (\<exists>p. prefix = Some p \<and> well_formed p)"
    and "fst (Logger_init app prefix cfg s) = Inr obj"
    and "list_all well_formed (entered evs)"
    and "run_scopes evs (obj, []) = (obj', saved)"
  shows "(entity_prefix obj' = [] \<or> well_formed (entity_prefix obj'))
       \<and> (entity_prefix obj' = []
            \<or> (hd (entity_prefix obj') \<noteq> CHR ''/'' \<and> last (entity_prefix obj') \<noteq> CHR ''/''))
       \<and> (well_formed rel \<longrightarrow> well_formed (get_path obj' rel))"
proof -
  have "empty_or_well_formed (entity_prefix obj)"
    using assms(1) init_prefix [OF assms(2)] by (auto simp: empty_or_well_formed_def)
  from run_scopes_inv [OF this _ assms(3,4)]
  have c: "empty_or_well_formed (entity_prefix obj')" by simp
  then have "entity_prefix obj' = [] \<or> well_formed (entity_prefix obj')"
    by (simp add: empty_or_well_formed_def)
  with c show ?thesis
    using well_formed_hd well_formed_last get_path_well_formed by blast
qed

theorem well_formed_prefix_invariant_witness:
  "well_formed ''exp''
   \<and> fst (Logger_init ''app'' (Some ''exp'') None fresh_sink)
     = Inr \<lparr>application_id = ''app'', entity_prefix = ''exp'', config = Map.empty\<rparr>
   \<and> list_all well_formed (entered [Enter ''train'', Enter ''epoch_1'', Exit])
   \<and> run_scopes [Enter ''train'', Enter ''epoch_1'', Exit]
        (\<lparr>application_id = ''app'', entity_prefix = ''exp'', config = Map.empty\<rparr>, [])
     = (\<lparr>application_id = ''app'', entity_prefix = ''exp/train'', config = Map.empty\<rparr>,
        [''exp''])
   \<and> well_formed ''loss''
   \<and> well_formed (get_path
        \<lparr>application_id = ''app'', entity_prefix = ''exp/train'', config = Map.empty\<rparr> ''loss'')
   \<and> get_path \<lparr>application_id = ''app'', entity_prefix = ''exp/train'', config = Map.empty\<rparr>
        ''loss'' = ''exp/train/loss''"
proof -
  have 1: "well_formed ''exp''" and 2: "well_formed ''loss''"
    by (simp_all add: well_formed_def)
  have 3: "fst (Logger_init ''app'' (Some ''exp'') None fresh_sink)
     = Inr \<lparr>application_id = ''app'', entity_prefix = ''exp'', config = Map.empty\<rparr>"
    by (simp add: Logger_init_def config_get_def rr_init_def forward_def fresh_sink_def)
  have 4: "list_all well_formed (entered [Enter ''train'', Enter ''epoch_1'', Exit])"
    by (simp add: well_formed_def)
  have 5: "run_scopes [Enter ''train'', Enter ''epoch_1'', Exit]
        (\<lparr>application_id = ''app'', entity_prefix = ''exp'', config = Map.empty\<rparr>, [])
     = (\<lparr>application_id = ''app'', entity_prefix = ''exp/train'', config = Map.empty\<rparr>,
        [''exp''])"
    by (simp add: run_scopes_def context_enter_def context_exit_def)
  have 6: "get_path \<lparr>application_id = ''app'', entity_prefix = ''exp/train'', config = Map.empty\<rparr>
        ''loss'' = ''exp/train/loss''"
    by (simp add: get_path_def py_strip_def)
  from 1 have 0: "Some ''exp'' = None \<or> Some ''exp'' = Some []
      \<or> (\<exists>p. Some ''exp'' = Some p \<and> well_formed p)" by simp
  from well_formed_prefix_invariant [OF 0 3 4 5, of "''loss''"] 2
  have "well_formed (get_path
        \<lparr>application_id = ''app'', entity_prefix = ''exp/train'', config = Map.empty\<rparr> ''loss'')"
    by simp
  with 1 2 3 4 5 6 show ?thesis by simp
qed

text \<open>
  The claim as the spec states it fails: the constructor keeps an \<open>entity_prefix\<close> with
  separators at its ends as it is, and a relative path with an empty segment keeps it
  under a prefix.
\<close>

theorem prefix_invariant_counterexample:
  "fst (Logger_init ''app'' (Some ''/runs/'') None fresh_sink)
     = Inr \<lparr>application_id = ''app'', entity_prefix = ''/runs/'', config = Map.empty\<rparr>
   \<and> hd ''/runs/'' = CHR ''/'' \<and> last ''/runs/'' = CHR ''/''
   \<and> fst (Logger_init ''app'' (Some ''runs'') None fresh_sink)
     = Inr \<lparr>application_id = ''app'', entity_prefix = ''runs'', config = Map.empty\<rparr>
   \<and> get_path \<lparr>application_id = ''app'', entity_prefix = ''runs'', config = Map.empty\<rparr> ''a//b''
     = ''runs/a//b''
   \<and> segments ''runs/a//b'' = [''runs'', ''a'', [], ''b'']"
  by (simp add: Logger_init_def config_get_def rr_init_def forward_def fresh_sink_def
      get_path_def py_strip_def)

end
